theory Spec2Isabelle
  imports Complex_Main "HOL-Library.Word"
begin

section \<open>Payloads, entities and validation failures\<close>

text \<open>
  The module \<^verbatim>\<open>aioyookassa/types/payment.py\<close> consists of class declarations only: every
  class derives from pydantic's \<^verbatim>\<open>BaseModel\<close> and lists its fields, each with a type
  annotation, possibly a default and possibly a wire alias. Constructing an entity from a
  JSON payload is what \<^verbatim>\<open>BaseModel\<close> does with that table of fields. The embedding
  therefore has two parts: the table of each class, transcribed line by line from the source,
  and one function \<open>validate\<close> that interprets a table on a payload.

  A payload is a decoded JSON value. An object is the list of its pairs, read with
  \<open>map_of\<close>; a decoded object has every key once. A Python \<^verbatim>\<open>float\<close> is carried as its
  IEEE-754 binary64 bit pattern: the classes store such a number and never compute with it.
\<close>

datatype json =
    JNull
  | JBool bool
  | JInt int
  | JFloat "64 word"
  | JStr string
  | JArr "json list"
  | JObj "(string \<times> json) list"

datatype datetime =
  Datetime (year: nat) (month: nat) (day: nat) (hour: nat) (minute: nat) (second: nat)
    (microsecond: nat) (utcoffset: "int option")

text \<open>
  The value of a field of a constructed entity. An entity (\<open>VModel\<close>) carries the name of
  its class and its fields under their canonical names, in declaration order.
\<close>

datatype val =
    VNone
  | VBool bool
  | VInt int
  | VFloat "64 word"
  | VStr string
  | VDatetime datetime
  | VDict "(string \<times> json) list"
  | VEnum string
  | VList "val list"
  | VModel string "(string \<times> val) list"

text \<open>
  The annotations of the source: the scalar types \<^verbatim>\<open>str\<close>, \<^verbatim>\<open>bool\<close>, \<^verbatim>\<open>int\<close>,
  \<^verbatim>\<open>int | float\<close>, \<^verbatim>\<open>datetime.datetime\<close> and \<^verbatim>\<open>dict\<close>; an enumeration class, given by
  its member values; \<^verbatim>\<open>T | None\<close>; \<^verbatim>\<open>List[T]\<close>; and a model class, given by its name and
  its fields. A field has a canonical name, a wire name (its alias, or the canonical name
  when it declares none), a type, and a default (\<open>None\<close> when the field is mandatory).
\<close>

datatype stype = SStr | SBool | SInt | SIntOrFloat | SDatetime | SDict

datatype ftype =
    TScalar stype
  | TEnum "string list"
  | TOptional ftype
  | TList ftype
  | TModel (mname: string) (mfields: "field list")
and field =
  Field (fname: string) (falias: string) (ftyp: ftype) (fdefault: "val option")

text \<open>
  A structural validation failure is a non-empty list of errors, each with the path of the
  offending field (wire names and list indices, outermost first) and its cause.
\<close>

datatype loc_item = Key string | Idx nat

datatype err_kind = Missing | ModelType | ListType | EnumMember | Invalid stype

datatype err = Err (loc: "loc_item list") (kind: err_kind)

section \<open>Construction of an entity from a payload\<close>

text \<open>
  How a scalar JSON value is converted to a scalar type (for instance whether the string
  \<^verbatim>\<open>"12"\<close> is accepted for an \<^verbatim>\<open>int\<close>) is decided by the validation library, not by this
  module; it is a parameter of the construction, so that every theorem below holds for each
  conversion policy.
\<close>

type_synonym scalars = "stype \<Rightarrow> json \<Rightarrow> val option"

fun prefix_loc :: "loc_item \<Rightarrow> err \<Rightarrow> err" where
  "prefix_loc l (Err p k) = Err (l # p) k"

definition at_loc :: "loc_item \<Rightarrow> err list + 'a \<Rightarrow> err list + 'a" where
  "at_loc l r = (case r of Inl es \<Rightarrow> Inl (map (prefix_loc l) es) | Inr v \<Rightarrow> Inr v)"

text \<open>
  Validation does not stop at the first failing field: it visits every field and reports
  all errors together, in order. There is a result only when no field failed.
\<close>

fun collect :: "(err list + 'a) list \<Rightarrow> err list + 'a list" where
  "collect [] = Inr []"
| "collect (r # rs) =
     (case r of
        Inr v \<Rightarrow> (case collect rs of Inr vs \<Rightarrow> Inr (v # vs) | Inl es' \<Rightarrow> Inl es')
      | Inl es \<Rightarrow> (case collect rs of Inr vs \<Rightarrow> Inl es | Inl es' \<Rightarrow> Inl (es @ es')))"

text \<open>
  Modelled from the spec: the enumeration classes \<^verbatim>\<open>PaymentStatus\<close>,
  \<^verbatim>\<open>ReceiptRegistration\<close>, \<^verbatim>\<open>CancellationParty\<close>, \<^verbatim>\<open>CancellationReason\<close> and
  \<^verbatim>\<open>ConfirmationType\<close> are imported from \<^verbatim>\<open>aioyookassa/types/enum.py\<close>, which is not
  among the sources. Following section 4.4 of the specification an enumeration is a closed
  set of member values: a value is accepted exactly when it is one of the members, and
  there is no fallback member for other values.
\<close>

fun validate_enum :: "string list \<Rightarrow> json \<Rightarrow> err list + val" where
  "validate_enum ms (JStr s) =
     (if s \<in> set ms then Inr (VEnum s) else Inl [Err [] EnumMember])"
| "validate_enum ms j = Inl [Err [] EnumMember]"

text \<open>
  \<open>validate sv t j\<close> validates the JSON value \<open>j\<close> against the annotation \<open>t\<close>.
  For a model class the payload must be an object; every declared field is looked up under
  its wire name only; keys that no field declares are ignored; an absent key takes the
  field's default, which is not validated, and is an error when there is none.
\<close>

fun validate :: "scalars \<Rightarrow> ftype \<Rightarrow> json \<Rightarrow> err list + val"
and validate_field :: "scalars \<Rightarrow> (string \<times> json) list \<Rightarrow> field \<Rightarrow> err list + (string \<times> val)"
where
  "validate sv (TScalar s) j =
     (case sv s j of None \<Rightarrow> Inl [Err [] (Invalid s)] | Some v \<Rightarrow> Inr v)"
| "validate sv (TEnum ms) j = validate_enum ms j"
| "validate sv (TOptional t) j =
     (case j of JNull \<Rightarrow> Inr VNone | _ \<Rightarrow> validate sv t j)"
| "validate sv (TList t) j =
     (case j of
        JArr xs \<Rightarrow>
          map_sum id VList
            (collect (map (\<lambda>(i, x). at_loc (Idx i) (validate sv t x)) (enumerate 0 xs)))
      | _ \<Rightarrow> Inl [Err [] ListType])"
| "validate sv (TModel n fs) j =
     (case j of
        JObj kvs \<Rightarrow> map_sum id (VModel n) (collect (map (validate_field sv kvs) fs))
      | _ \<Rightarrow> Inl [Err [] ModelType])"
| "validate_field sv kvs (Field n a t d) =
     (case map_of kvs a of
        Some j \<Rightarrow> at_loc (Key a) (map_sum id (Pair n) (validate sv t j))
      | None \<Rightarrow> (case d of None \<Rightarrow> Inl [Err [Key a] Missing] | Some v \<Rightarrow> Inr (n, v)))"

fun is_ok :: "'e + 'a \<Rightarrow> bool" where
  "is_ok (Inr v) = True"
| "is_ok (Inl e) = False"

fun errors_of :: "err list + 'a \<Rightarrow> err list" where
  "errors_of (Inl es) = es"
| "errors_of (Inr v) = []"

subsection \<open>A conversion policy for scalars\<close>

text \<open>
  The policy \<open>exact_scalars\<close> accepts a JSON value whose type is the annotated one, and
  stores it unchanged; a timestamp is a string of the shape
  \<^verbatim>\<open>YYYY-MM-DDTHH:MM:SS\<close>, optionally followed by a fraction of up to six digits and by
  \<^verbatim>\<open>Z\<close>. It is the common core of the conversions the library performs, and serves to
  evaluate the construction on concrete payloads.
\<close>

definition digit_val :: "char \<Rightarrow> nat option" where
  "digit_val c =
     (let n = (of_char c :: nat) in if 48 \<le> n \<and> n \<le> 57 then Some (n - 48) else None)"

definition digits :: "string \<Rightarrow> nat option" where
  "digits s =
     (if s = [] then None
      else fold (\<lambda>c acc. case (acc, digit_val c) of
                            (Some a, Some d) \<Rightarrow> Some (10 * a + d)
                          | _ \<Rightarrow> None) s (Some 0))"

definition is_leap :: "nat \<Rightarrow> bool" where
  "is_leap y = (if y mod 100 = 0 then y mod 400 = 0 else y mod 4 = 0)"

definition days_in_month :: "nat \<Rightarrow> nat \<Rightarrow> nat" where
  "days_in_month y m =
     (if m = 2 then (if is_leap y then 29 else 28)
      else if m = 4 \<or> m = 6 \<or> m = 9 \<or> m = 11 then 30
      else 31)"

definition parse_zone :: "string \<Rightarrow> int option option" where
  "parse_zone z = (if z = [] then Some None else if z = ''Z'' then Some (Some 0) else None)"

definition parse_tail :: "string \<Rightarrow> (nat \<times> int option) option" where
  "parse_tail t =
     (case t of
        c # r \<Rightarrow>
          if c = CHR ''.'' then
            (let ds = takeWhile (\<lambda>d. digit_val d \<noteq> None) r;
                 z = dropWhile (\<lambda>d. digit_val d \<noteq> None) r
             in if length ds > 6 then None
                else (case (digits ds, parse_zone z) of
                        (Some n, Some tz) \<Rightarrow> Some (n * 10 ^ (6 - length ds), tz)
                      | _ \<Rightarrow> None))
          else map_option (Pair 0) (parse_zone t)
      | [] \<Rightarrow> Some (0, None))"

definition parse_datetime :: "string \<Rightarrow> datetime option" where
  "parse_datetime s =
     (if 19 \<le> length s \<and> s ! 4 = CHR ''-'' \<and> s ! 7 = CHR ''-'' \<and> s ! 10 = CHR ''T''
         \<and> s ! 13 = CHR '':'' \<and> s ! 16 = CHR '':''
      then
        (case (digits (take 4 s), digits (take 2 (drop 5 s)), digits (take 2 (drop 8 s)),
               digits (take 2 (drop 11 s)), digits (take 2 (drop 14 s)),
               digits (take 2 (drop 17 s)), parse_tail (drop 19 s)) of
           (Some y, Some mo, Some d, Some h, Some mi, Some sec, Some (us, tz)) \<Rightarrow>
             if 1 \<le> y \<and> 1 \<le> mo \<and> mo \<le> 12 \<and> 1 \<le> d \<and> d \<le> days_in_month y mo
                \<and> h < 24 \<and> mi < 60 \<and> sec < 60
             then Some (Datetime y mo d h mi sec us tz) else None
         | _ \<Rightarrow> None)
      else None)"

fun exact_scalars :: scalars where
  "exact_scalars SStr (JStr s) = Some (VStr s)"
| "exact_scalars SBool (JBool b) = Some (VBool b)"
| "exact_scalars SInt (JInt n) = Some (VInt n)"
| "exact_scalars SIntOrFloat (JInt n) = Some (VInt n)"
| "exact_scalars SIntOrFloat (JFloat x) = Some (VFloat x)"
| "exact_scalars SDatetime (JStr s) = map_option VDatetime (parse_datetime s)"
| "exact_scalars SDict (JObj kvs) = Some (VDict kvs)"
| "exact_scalars _ _ = None"

subsection \<open>Numbers given as decimal strings\<close>



definition dyadic :: "rat \<Rightarrow> bool" where
  "dyadic q \<longleftrightarrow> (\<exists>m k. q = of_int m / 2 ^ k)"












section \<open>The classes of \<^verbatim>\<open>aioyookassa/types/payment.py\<close>\<close>

text \<open>
  The annotations, and the three ways the source declares a field:
  \<^verbatim>\<open>name: T\<close> (mandatory), \<^verbatim>\<open>name: T = v\<close> (default \<open>v\<close>), and
  \<^verbatim>\<open>name: T = Field(v, alias='wire')\<close>, where \<^verbatim>\<open>Field(..., alias='wire')\<close> declares no
  default. The last form is written with the constructor \<open>Field\<close> itself.
\<close>

abbreviation str :: ftype where "str \<equiv> TScalar SStr"
abbreviation boolean :: ftype where "boolean \<equiv> TScalar SBool"
abbreviation integer :: ftype where "integer \<equiv> TScalar SInt"
abbreviation int_or_float :: ftype where "int_or_float \<equiv> TScalar SIntOrFloat"
abbreviation datetime :: ftype where "datetime \<equiv> TScalar SDatetime"
abbreviation dict :: ftype where "dict \<equiv> TScalar SDict"

abbreviation mandatory :: "string \<Rightarrow> ftype \<Rightarrow> field" where
  "mandatory n t \<equiv> Field n n t None"

abbreviation defaulted :: "string \<Rightarrow> ftype \<Rightarrow> val \<Rightarrow> field" where
  "defaulted n t v \<equiv> Field n n t (Some v)"

text \<open>
  The member values of the five enumeration classes (declared in
  \<^verbatim>\<open>aioyookassa/types/enum.py\<close>) are parameters of the classes that use them.
\<close>

record enums =
  PaymentStatus :: "string list"
  ReceiptRegistration :: "string list"
  CancellationParty :: "string list"
  CancellationReason :: "string list"
  ConfirmationType :: "string list"

definition Confirmation :: "enums \<Rightarrow> ftype" where
  "Confirmation E = TModel ''Confirmation''
     [ mandatory ''type'' (TEnum (ConfirmationType E)),
       defaulted ''enforce'' (TOptional boolean) VNone,
       defaulted ''locale'' (TOptional str) VNone,
       defaulted ''return_url'' (TOptional str) VNone,
       Field ''url'' ''confirmation_url'' (TOptional str) (Some VNone) ]"

definition PaymentAmount :: ftype where
  "PaymentAmount = TModel ''PaymentAmount''
     [ mandatory ''value'' int_or_float,
       mandatory ''currency'' str ]"

definition Recipient :: ftype where
  "Recipient = TModel ''Recipient''
     [ mandatory ''account_id'' str,
       mandatory ''gateway_id'' str ]"

definition PayerBankDetails :: ftype where
  "PayerBankDetails = TModel ''PayerBankDetails''
     [ mandatory ''full_name'' str,
       mandatory ''short_name'' str,
       mandatory ''address'' str,
       mandatory ''inn'' str,
       mandatory ''bank_name'' str,
       mandatory ''bank_branch'' str,
       mandatory ''bank_bik'' str,
       mandatory ''bank_account'' str,
       defaulted ''kpp'' (TOptional str) VNone ]"

definition VatData :: ftype where
  "VatData = TModel ''VatData''
     [ mandatory ''type'' str,
       defaulted ''amount'' (TOptional PaymentAmount) VNone,
       defaulted ''rate'' (TOptional str) VNone ]"

definition CardInfo :: ftype where
  "CardInfo = TModel ''CardInfo''
     [ Field ''first_six'' ''first6'' (TOptional str) (Some VNone),
       Field ''last_four'' ''last4'' str None,
       mandatory ''expiry_year'' str,
       mandatory ''expiry_month'' str,
       mandatory ''card_type'' str,
       Field ''card_country'' ''issuer_country'' (TOptional str) (Some VNone),
       Field ''bank_name'' ''issuer_name'' (TOptional str) (Some VNone),
       defaulted ''source'' (TOptional str) VNone ]"

definition PaymentMethod :: ftype where
  "PaymentMethod = TModel ''PaymentMethod''
     [ mandatory ''type'' str,
       mandatory ''id'' str,
       mandatory ''saved'' boolean,
       defaulted ''title'' (TOptional str) VNone,
       defaulted ''login'' (TOptional str) VNone,
       defaulted ''card'' (TOptional CardInfo) VNone,
       defaulted ''phone'' (TOptional str) VNone,
       defaulted ''payer_bank_details'' (TOptional PayerBankDetails) VNone,
       defaulted ''payment_purpose'' (TOptional str) VNone,
       defaulted ''vat_data'' (TOptional VatData) VNone,
       defaulted ''account_number'' (TOptional str) VNone ]"

definition CancellationDetails :: "enums \<Rightarrow> ftype" where
  "CancellationDetails E = TModel ''CancellationDetails''
     [ mandatory ''party'' (TEnum (CancellationParty E)),
       mandatory ''reason'' (TEnum (CancellationReason E)) ]"

definition ThreeDSInfo :: ftype where
  "ThreeDSInfo = TModel ''ThreeDSInfo''
     [ mandatory ''applied'' boolean ]"

definition AuthorizationDetails :: ftype where
  "AuthorizationDetails = TModel ''AuthorizationDetails''
     [ Field ''transaction_identifier'' ''rrn'' (TOptional str) (Some VNone),
       Field ''authorization_code'' ''auth_code'' (TOptional str) (Some VNone),
       mandatory ''three_d_secure'' ThreeDSInfo ]"

definition Transfer :: "enums \<Rightarrow> ftype" where
  "Transfer E = TModel ''Transfer''
     [ mandatory ''account_id'' str,
       mandatory ''amount'' PaymentAmount,
       mandatory ''status'' (TEnum (PaymentStatus E)),
       Field ''fee_amount'' ''platform_fee_amount'' PaymentAmount (Some VNone),
       defaulted ''description'' (TOptional str) VNone,
       defaulted ''metadata'' (TOptional dict) VNone ]"

definition Settlement :: ftype where
  "Settlement = TModel ''Settlement''
     [ mandatory ''type'' str,
       mandatory ''amount'' PaymentAmount ]"

definition Deal :: ftype where
  "Deal = TModel ''Deal''
     [ mandatory ''id'' str,
       mandatory ''settlements'' (TList PaymentAmount) ]"

definition Payment :: "enums \<Rightarrow> ftype" where
  "Payment E = TModel ''Payment''
     [ mandatory ''id'' str,
       mandatory ''status'' (TEnum (PaymentStatus E)),
       mandatory ''amount'' PaymentAmount,
       defaulted ''income_amount'' (TOptional PaymentAmount) VNone,
       defaulted ''description'' (TOptional str) VNone,
       mandatory ''recipient'' Recipient,
       defaulted ''payment_method'' (TOptional PaymentMethod) VNone,
       defaulted ''captured_at'' (TOptional datetime) VNone,
       mandatory ''created_at'' datetime,
       defaulted ''expires_at'' (TOptional datetime) VNone,
       defaulted ''confirmation'' (TOptional (Confirmation E)) VNone,
       mandatory ''test'' boolean,
       defaulted ''refunded_amount'' (TOptional PaymentAmount) VNone,
       mandatory ''paid'' boolean,
       mandatory ''refundable'' boolean,
       defaulted ''receipt_registration'' (TOptional (TEnum (ReceiptRegistration E))) VNone,
       defaulted ''metadata'' (TOptional dict) VNone,
       defaulted ''cancellation_details'' (TOptional (CancellationDetails E)) VNone,
       defaulted ''authorization_details'' (TOptional AuthorizationDetails) VNone,
       defaulted ''transfers'' (TOptional (TList (Transfer E))) VNone,
       defaulted ''deal'' (TOptional Deal) VNone,
       defaulted ''merchant_customer_id'' (TOptional str) VNone ]"

definition PaymentsList :: "enums \<Rightarrow> ftype" where
  "PaymentsList E = TModel ''PaymentsList''
     [ Field ''list'' ''items'' (TList (Payment E)) (Some (VList [])),
       defaulted ''cursor'' (TOptional str) VNone ]"

definition Customer :: ftype where
  "Customer = TModel ''Customer''
     [ defaulted ''full_name'' (TOptional str) VNone,
       defaulted ''inn'' (TOptional str) VNone,
       defaulted ''email'' (TOptional str) VNone,
       defaulted ''phone'' (TOptional str) VNone ]"

definition MarkQuantity :: ftype where
  "MarkQuantity = TModel ''MarkQuantity''
     [ mandatory ''numerator'' integer,
       mandatory ''denominator'' integer ]"

definition MarkCodeInfo :: ftype where
  "MarkCodeInfo = TModel ''MarkCodeInfo''
     [ Field ''code'' ''mark_code_raw'' (TOptional str) (Some VNone),
       defaulted ''unknown'' (TOptional str) VNone,
       defaulted ''ean_8'' (TOptional str) VNone,
       defaulted ''ean_13'' (TOptional str) VNone,
       defaulted ''itf_14'' (TOptional str) VNone,
       defaulted ''gs_10'' (TOptional str) VNone,
       defaulted ''gs_1m'' (TOptional str) VNone,
       defaulted ''short'' (TOptional str) VNone,
       defaulted ''fur'' (TOptional str) VNone,
       defaulted ''egais_20'' (TOptional str) VNone,
       defaulted ''egais_30'' (TOptional str) VNone ]"

definition IndustryDetails :: ftype where
  "IndustryDetails = TModel ''IndustryDetails''
     [ mandatory ''federal_id'' str,
       mandatory ''document_date'' datetime,
       mandatory ''document_number'' str,
       mandatory ''value'' str ]"

definition PaymentItem :: ftype where
  "PaymentItem = TModel ''PaymentItem''
     [ mandatory ''description'' str,
       mandatory ''amount'' PaymentAmount,
       mandatory ''vat_code'' integer,
       mandatory ''quantity'' str,
       defaulted ''measure'' (TOptional str) VNone,
       defaulted ''mark_quantity'' (TOptional MarkQuantity) VNone,
       defaulted ''payment_subject'' (TOptional str) VNone,
       defaulted ''payment_mode'' (TOptional str) VNone,
       defaulted ''country_of_origin_code'' (TOptional str) VNone,
       defaulted ''customs_declaration_number'' (TOptional str) VNone,
       defaulted ''excise'' (TOptional str) VNone,
       defaulted ''product_code'' (TOptional str) VNone,
       defaulted ''mark_code_info'' (TOptional MarkCodeInfo) VNone,
       defaulted ''mark_mode'' (TOptional str) VNone,
       defaulted ''payment_subject_industry_details'' (TOptional IndustryDetails) VNone ]"

definition OperationDetails :: ftype where
  "OperationDetails = TModel ''OperationDetails''
     [ Field ''id'' ''operation_id'' integer None,
       mandatory ''value'' str,
       mandatory ''created_at'' datetime ]"

definition Receipt :: ftype where
  "Receipt = TModel ''Receipt''
     [ defaulted ''customer'' (TOptional Customer) VNone,
       mandatory ''items'' (TList PaymentItem),
       defaulted ''phone'' (TOptional str) VNone,
       defaulted ''email'' (TOptional str) VNone,
       defaulted ''tax_system_code'' (TOptional integer) VNone,
       defaulted ''receipt_industry_details'' (TOptional IndustryDetails) VNone,
       defaulted ''receipt_operation_details'' (TOptional OperationDetails) VNone ]"

definition Passenger :: ftype where
  "Passenger = TModel ''Passenger''
     [ mandatory ''first_name'' str,
       mandatory ''last_name'' str ]"

definition Flight :: ftype where
  "Flight = TModel ''Flight''
     [ mandatory ''departure_airport'' str,
       mandatory ''arrival_airport'' str,
       mandatory ''departure_date'' datetime,
       defaulted ''carrier_code'' (TOptional str) VNone ]"

definition Airline :: ftype where
  "Airline = TModel ''Airline''
     [ defaulted ''ticket_number'' (TOptional str) VNone,
       defaulted ''booking_reference'' (TOptional str) VNone,
       defaulted ''passengers'' (TOptional (TList Passenger)) VNone,
       Field ''flights'' ''legs'' (TOptional (TList Flight)) (Some VNone) ]"

text \<open>Every class of the module, in the order of the source.\<close>

definition all_models :: "enums \<Rightarrow> ftype list" where
  "all_models E =
     [ Confirmation E, PaymentAmount, Recipient, PayerBankDetails, VatData, CardInfo,
       PaymentMethod, CancellationDetails E, ThreeDSInfo, AuthorizationDetails, Transfer E,
       Settlement, Deal, Payment E, PaymentsList E, Customer, MarkQuantity, MarkCodeInfo,
       IndustryDetails, PaymentItem, OperationDetails, Receipt, Passenger, Flight, Airline ]"

section \<open>Serialization by alias\<close>




section \<open>Sample parameters and payloads\<close>

text \<open>
  An instance of the enumeration parameters and some payloads, on which the construction is
  evaluated below. Of the member values only \<^verbatim>\<open>succeeded\<close> is named by the
  specification; the theorems hold for every instance. The entity \<open>sample_entity\<close> is the
  one constructed from \<open>sample_payment\<close>; \<open>settlement_shaped_deal\<close> is a deal whose
  settlement entries have the shape of the class \<^verbatim>\<open>Settlement\<close>.
\<close>

definition sample_enums :: enums where
  "sample_enums =
     \<lparr> PaymentStatus = [''pending'', ''waiting_for_capture'', ''succeeded'', ''canceled''],
       ReceiptRegistration = [''pending'', ''succeeded'', ''canceled''],
       CancellationParty = [''yoo_money'', ''payment_network'', ''merchant''],
       CancellationReason = [''general_decline'', ''expired_on_confirmation''],
       ConfirmationType = [''redirect'', ''embedded''] \<rparr>"

definition sample_payment :: "(string \<times> json) list" where
  "sample_payment =
     [ (''id'', JStr ''23d93cac-000f-5000-8000-126628f15141''),
       (''status'', JStr ''succeeded''),
       (''paid'', JBool True),
       (''amount'', JObj [(''value'', JInt 2), (''currency'', JStr ''RUB'')]),
       (''created_at'', JStr ''2018-07-18T10:51:18.139Z''),
       (''recipient'', JObj [(''account_id'', JStr ''100500''), (''gateway_id'', JStr ''100700'')]),
       (''refundable'', JBool True),
       (''test'', JBool False) ]"


definition sample_card :: "(string \<times> json) list" where
  "sample_card =
     [ (''first6'', JStr ''411111''),
       (''last4'', JStr ''1111''),
       (''expiry_year'', JStr ''2030''),
       (''expiry_month'', JStr ''12''),
       (''card_type'', JStr ''Visa'') ]"

definition sample_transfer :: "(string \<times> json) list" where
  "sample_transfer =
     [ (''account_id'', JStr ''123''),
       (''amount'', JObj [(''value'', JInt 300), (''currency'', JStr ''RUB'')]),
       (''status'', JStr ''succeeded'') ]"

definition settlement_shaped_deal :: "(string \<times> json) list" where
  "settlement_shaped_deal =
     [ (''id'', JStr ''dl-285e5ee7-0022-5000-8000-01516a44b147''),
       (''settlements'',
          JArr [ JObj [ (''type'', JStr ''payout''),
                        (''amount'', JObj [(''value'', JInt 80), (''currency'', JStr ''RUB'')]) ] ]) ]"

definition sample_confirmation :: "(string \<times> json) list" where
  "sample_confirmation =
     [ (''type'', JStr ''redirect''),
       (''confirmation_url'', JStr ''https://yoomoney.ru/checkout/payments/v2/contract'') ]"

section \<open>Properties of the construction\<close>

text \<open>
  The result of validating a list of fields, in closed form: the entity when every field
  is accepted, and otherwise the errors of the failing fields, in declaration order.
\<close>

lemma list_all_filter_iff:
  "list_all P (filter Q xs) \<longleftrightarrow> (\<forall>x\<in>set xs. Q x \<longrightarrow> P x)"
  by (auto simp: list_all_iff)

lemma errors_of_ok: "is_ok r \<Longrightarrow> errors_of r = []"
  by (cases r) simp_all

lemma is_ok_iff: "is_ok r \<longleftrightarrow> (\<exists>v. r = Inr v)"
  by (cases r) simp_all

lemma collect_eq:
  "collect rs = (if list_all is_ok rs then Inr (map projr rs) else Inl (concat (map errors_of rs)))"
proof (induction rs)
  case Nil
  show ?case by simp
next
  case (Cons r rs)
  show ?case
  proof (cases r)
    case (Inl es)
    with Cons show ?thesis
      by (cases "list_all is_ok rs") (simp_all add: list_all_iff errors_of_ok)
  next
    case (Inr v)
    with Cons show ?thesis by (cases "list_all is_ok rs") simp_all
  qed
qed

lemma validate_model_eq:
  "validate sv (TModel n fs) (JObj kvs) =
     (if list_all (\<lambda>f. is_ok (validate_field sv kvs f)) fs
      then Inr (VModel n (map (\<lambda>f. projr (validate_field sv kvs f)) fs))
      else Inl (concat (map (\<lambda>f. errors_of (validate_field sv kvs f)) fs)))"
  by (simp add: collect_eq list_all_iff comp_def)

lemma validate_field_absent:
  "map_of kvs (falias f) = None \<Longrightarrow>
   validate_field sv kvs f =
     (case fdefault f of None \<Rightarrow> Inl [Err [Key (falias f)] Missing] | Some v \<Rightarrow> Inr (fname f, v))"
  by (cases f) (auto split: option.splits)

lemma validate_field_present:
  "map_of kvs (falias f) = Some j \<Longrightarrow>
   validate_field sv kvs f =
     (case validate sv (ftyp f) j of
        Inl es \<Rightarrow> Inl (map (prefix_loc (Key (falias f))) es)
      | Inr v \<Rightarrow> Inr (fname f, v))"
  by (cases f) (auto simp: at_loc_def split: sum.splits)

lemma validate_field_cases:
  "validate_field sv kvs f =
     (case map_of kvs (falias f) of
        None \<Rightarrow> (case fdefault f of None \<Rightarrow> Inl [Err [Key (falias f)] Missing]
                  | Some v \<Rightarrow> Inr (fname f, v))
      | Some j \<Rightarrow> (case validate sv (ftyp f) j of
                     Inl es \<Rightarrow> Inl (map (prefix_loc (Key (falias f))) es)
                   | Inr v \<Rightarrow> Inr (fname f, v)))"
  by (simp add: validate_field_absent validate_field_present split: option.splits)

lemma validate_field_name:
  "validate_field sv kvs f = Inr (c, v) \<Longrightarrow> c = fname f"
  by (auto simp: validate_field_cases split: option.splits sum.splits)

lemma validate_field_error_loc:
  "e \<in> set (errors_of (validate_field sv kvs f)) \<Longrightarrow> \<exists>p. loc e = Key (falias f) # p"
proof -
  have pl: "\<And>l x. loc (prefix_loc l x) = l # loc x"
    subgoal for l x by (cases x) simp
    done
  assume "e \<in> set (errors_of (validate_field sv kvs f))"
  then show ?thesis
    by (auto simp: validate_field_cases pl split: option.splits sum.splits)
qed

lemma model_missing_mandatory:
  assumes "f \<in> set fs" and "fdefault f = None" and "map_of kvs (falias f) = None"
  shows "\<exists>es. validate sv (TModel n fs) (JObj kvs) = Inl es \<and> Err [Key (falias f)] Missing \<in> set es"
proof -
  have vf: "validate_field sv kvs f = Inl [Err [Key (falias f)] Missing]"
    using assms by (simp add: validate_field_absent)
  then have "\<not> list_all (\<lambda>f. is_ok (validate_field sv kvs f)) fs"
    using assms(1) by (force simp: list_all_iff)
  moreover have "Err [Key (falias f)] Missing \<in> set (concat (map (\<lambda>f. errors_of (validate_field sv kvs f)) fs))"
    using assms(1) vf by force
  ultimately show ?thesis by (subst validate_model_eq) simp
qed

lemma model_field_error:
  assumes "f \<in> set fs" and "validate_field sv kvs f = Inl es" and "e \<in> set es"
  shows "\<exists>es'. validate sv (TModel n fs) (JObj kvs) = Inl es' \<and> e \<in> set es'"
proof -
  have "\<not> list_all (\<lambda>f. is_ok (validate_field sv kvs f)) fs"
    using assms(1,2) by (force simp: list_all_iff)
  moreover have "e \<in> set (concat (map (\<lambda>f. errors_of (validate_field sv kvs f)) fs))"
    using assms by force
  ultimately show ?thesis by (subst validate_model_eq) simp
qed

lemma model_success:
  assumes "\<forall>f\<in>set fs. is_ok (validate_field sv kvs f)"
  shows "validate sv (TModel n fs) (JObj kvs) =
           Inr (VModel n (map (\<lambda>f. projr (validate_field sv kvs f)) fs))"
  using assms by (subst validate_model_eq) (simp add: list_all_iff)

lemma model_field_value:
  assumes ok: "validate sv (TModel n fs) (JObj kvs) = Inr r"
    and f: "f \<in> set fs" and d: "distinct (map fname fs)"
  shows "\<exists>v vs. r = VModel n vs \<and> validate_field sv kvs f = Inr (fname f, v)
           \<and> map_of vs (fname f) = Some v"
proof -
  let ?g = "\<lambda>f. projr (validate_field sv kvs f)"
  have all: "\<forall>f\<in>set fs. is_ok (validate_field sv kvs f)" and r: "r = VModel n (map ?g fs)"
    using ok unfolding validate_model_eq by (auto simp: list_all_iff split: if_splits)
  have nm: "fst (?g h) = fname h" if "h \<in> set fs" for h
  proof -
    from all that obtain c v where "validate_field sv kvs h = Inr (c, v)"
      by (auto simp: is_ok_iff)
    then show ?thesis using validate_field_name by fastforce
  qed
  then have mf: "map fst (map ?g fs) = map fname fs" by simp
  have dist: "distinct (map fst (map ?g fs))" using d by (simp only: mf)
  have "(fname f, snd (?g f)) \<in> set (map ?g fs)"
    using f nm [OF f] by (metis image_eqI list.set_map prod.collapse)
  with dist have "map_of (map ?g fs) (fname f) = Some (snd (?g f))"
    by (simp only: map_of_eq_Some_iff)
  moreover have "validate_field sv kvs f = Inr (fname f, snd (?g f))"
    using all f nm [OF f] by (auto simp: is_ok_iff)
  ultimately show ?thesis using r by blast
qed

lemma model_error_origin:
  assumes "validate sv (TModel n fs) (JObj kvs) = Inl es" and "e \<in> set es"
  shows "\<exists>f\<in>set fs. e \<in> set (errors_of (validate_field sv kvs f))"
  using assms unfolding validate_model_eq by (auto split: if_splits)

lemma all_models_shape:
  "m \<in> set (all_models E) \<Longrightarrow> m = TModel (mname m) (mfields m)"
  by (auto simp: all_models_def Confirmation_def PaymentAmount_def Recipient_def
      PayerBankDetails_def VatData_def CardInfo_def PaymentMethod_def CancellationDetails_def
      ThreeDSInfo_def AuthorizationDetails_def Transfer_def Settlement_def Deal_def Payment_def
      PaymentsList_def Customer_def MarkQuantity_def MarkCodeInfo_def IndustryDetails_def
      PaymentItem_def OperationDetails_def Receipt_def Passenger_def Flight_def Airline_def)

lemma all_models_distinct:
  "m \<in> set (all_models E) \<Longrightarrow> distinct (map fname (mfields m))"
  by (auto simp: all_models_def Confirmation_def PaymentAmount_def Recipient_def
      PayerBankDetails_def VatData_def CardInfo_def PaymentMethod_def CancellationDetails_def
      ThreeDSInfo_def AuthorizationDetails_def Transfer_def Settlement_def Deal_def Payment_def
      PaymentsList_def Customer_def MarkQuantity_def MarkCodeInfo_def IndustryDetails_def
      PaymentItem_def OperationDetails_def Receipt_def Passenger_def Flight_def Airline_def)

lemma model_present_value:
  assumes "validate sv (TModel n fs) (JObj kvs) = Inr r"
    and "f \<in> set fs" and "distinct (map fname fs)" and "map_of kvs (falias f) = Some j"
  shows "\<exists>v vs. r = VModel n vs \<and> validate sv (ftyp f) j = Inr v \<and> map_of vs (fname f) = Some v"
proof -
  from model_field_value [OF assms(1,2,3)] obtain v vs where
    r: "r = VModel n vs" and vf: "validate_field sv kvs f = Inr (fname f, v)"
    and m: "map_of vs (fname f) = Some v" by blast
  from vf assms(4) have "validate sv (ftyp f) j = Inr v"
    by (auto simp: validate_field_present split: sum.splits)
  with r m show ?thesis by blast
qed

lemma model_success_lookup:
  assumes "\<forall>f\<in>set fs. is_ok (validate_field sv kvs f)" and "distinct (map fname fs)"
  shows "\<exists>vs. validate sv (TModel n fs) (JObj kvs) = Inr (VModel n vs)
           \<and> (\<forall>f\<in>set fs. \<forall>v. validate_field sv kvs f = Inr (fname f, v)
                 \<longrightarrow> map_of vs (fname f) = Some v)"
proof -
  let ?vs = "map (\<lambda>f. projr (validate_field sv kvs f)) fs"
  have ok: "validate sv (TModel n fs) (JObj kvs) = Inr (VModel n ?vs)"
    using model_success [OF assms(1)] .
  have "map_of ?vs (fname f) = Some v"
    if "f \<in> set fs" and "validate_field sv kvs f = Inr (fname f, v)" for f v
    using model_field_value [OF ok that(1) assms(2)] that(2) by auto
  with ok show ?thesis by blast
qed

lemma model_defaulted_absent:
  assumes f: "f \<in> set fs" and dn: "distinct (map fname fs)"
    and d: "fdefault f = Some dv" and a: "map_of kvs (falias f) = None"
  shows "(\<forall>g\<in>set fs. fname g \<noteq> fname f \<longrightarrow> is_ok (validate_field sv kvs g)) \<longrightarrow>
           (\<exists>vs. validate sv (TModel n fs) (JObj kvs) = Inr (VModel n vs)
              \<and> map_of vs (fname f) = Some dv)"
    and "\<forall>vs. validate sv (TModel n fs) (JObj kvs) = Inr (VModel n vs)
           \<longrightarrow> map_of vs (fname f) = Some dv"
    and "distinct (map falias fs) \<longrightarrow>
           (\<forall>es. validate sv (TModel n fs) (JObj kvs) = Inl es
              \<longrightarrow> (\<forall>p k. Err (Key (falias f) # p) k \<notin> set es))"
proof -
  have vf: "validate_field sv kvs f = Inr (fname f, dv)"
    using a d by (simp add: validate_field_absent)
  show "(\<forall>g\<in>set fs. fname g \<noteq> fname f \<longrightarrow> is_ok (validate_field sv kvs g)) \<longrightarrow>
           (\<exists>vs. validate sv (TModel n fs) (JObj kvs) = Inr (VModel n vs)
              \<and> map_of vs (fname f) = Some dv)"
  proof
    assume others: "\<forall>g\<in>set fs. fname g \<noteq> fname f \<longrightarrow> is_ok (validate_field sv kvs g)"
    have "\<forall>g\<in>set fs. is_ok (validate_field sv kvs g)"
    proof
      fix g assume g: "g \<in> set fs"
      show "is_ok (validate_field sv kvs g)"
      proof (cases "fname g = fname f")
        case True
        with dn f g have "g = f" by (meson distinct_map inj_on_def)
        with vf show ?thesis by simp
      next
        case False
        with others g show ?thesis by blast
      qed
    qed
    from model_success_lookup [OF this dn, of n] f vf show
      "\<exists>vs. validate sv (TModel n fs) (JObj kvs) = Inr (VModel n vs)
         \<and> map_of vs (fname f) = Some dv" by blast
  qed
  show "\<forall>vs. validate sv (TModel n fs) (JObj kvs) = Inr (VModel n vs)
           \<longrightarrow> map_of vs (fname f) = Some dv"
    using model_field_value [OF _ f dn, of sv n kvs] vf by fastforce
  show "distinct (map falias fs) \<longrightarrow>
           (\<forall>es. validate sv (TModel n fs) (JObj kvs) = Inl es
              \<longrightarrow> (\<forall>p k. Err (Key (falias f) # p) k \<notin> set es))"
  proof (intro allI impI notI)
    fix es p k
    assume da: "distinct (map falias fs)"
      and es: "validate sv (TModel n fs) (JObj kvs) = Inl es"
      and e: "Err (Key (falias f) # p) k \<in> set es"
    from model_error_origin [OF es e] obtain g where
      g: "g \<in> set fs"
      and ge: "Err (Key (falias f) # p) k \<in> set (errors_of (validate_field sv kvs g))"
      by blast
    from validate_field_error_loc [OF ge] have "falias g = falias f" by simp
    with da f g have "g = f" by (meson distinct_map inj_on_def)
    with ge vf show False by simp
  qed
qed

lemma model_present_accepted:
  assumes f: "f \<in> set fs" and dn: "distinct (map fname fs)"
    and j: "map_of kvs (falias f) = Some j" and v: "validate sv (ftyp f) j = Inr v"
    and others: "\<forall>g\<in>set fs. fname g \<noteq> fname f \<longrightarrow> is_ok (validate_field sv kvs g)"
  shows "\<exists>vs. validate sv (TModel n fs) (JObj kvs) = Inr (VModel n vs)
           \<and> map_of vs (fname f) = Some v"
proof -
  have vf: "validate_field sv kvs f = Inr (fname f, v)"
    using j v by (simp add: validate_field_present)
  have "\<forall>g\<in>set fs. is_ok (validate_field sv kvs g)"
  proof
    fix g assume g: "g \<in> set fs"
    show "is_ok (validate_field sv kvs g)"
    proof (cases "fname g = fname f")
      case True
      with dn f g have "g = f" by (meson distinct_map inj_on_def)
      with vf show ?thesis by simp
    next
      case False
      with others g show ?thesis by blast
    qed
  qed
  from model_success_lookup [OF this dn, of n] f vf show ?thesis by blast
qed







text \<open>
  A field annotated with an enumeration rejects every value that is not a member; when
  the annotation is \<^verbatim>\<open>Enum | None\<close>, every value other than null that is not a member.
  An optional string reports a value it refuses as invalid, never as missing.
\<close>

lemma enum_field_rejects:
  assumes "ftyp f = TEnum ms \<or> (ftyp f = TOptional (TEnum ms) \<and> j \<noteq> JNull)"
    and "map_of kvs (falias f) = Some j" and "j \<notin> JStr ` set ms"
  shows "validate_field sv kvs f = Inl [Err [Key (falias f)] EnumMember]"
proof -
  have "validate sv (TEnum ms) j = Inl [Err [] EnumMember]"
    using assms(3) by (cases j) auto
  moreover have "validate sv (TOptional (TEnum ms)) j = validate sv (TEnum ms) j" if "j \<noteq> JNull"
    using that by (cases j) simp_all
  ultimately have "validate sv (ftyp f) j = Inl [Err [] EnumMember]"
    using assms(1) by auto
  then show ?thesis
    using assms(2) by (simp add: validate_field_present)
qed

lemma optional_str_errors:
  "validate sv (TOptional str) j = Inl es \<Longrightarrow> es = [Err [] (Invalid SStr)]"
  by (cases j) (auto split: option.splits)

text \<open>The sample payment on the policy \<open>exact_scalars\<close>.\<close>

lemma sample_created_at:
  "parse_datetime ''2018-07-18T10:51:18.139Z''
     = Some (Datetime 2018 7 18 10 51 18 139000 (Some 0))"
  by (simp add: parse_datetime_def parse_tail_def digits_def digit_val_def parse_zone_def
      days_in_month_def is_leap_def)








lemma five_not_dvd_pow2: "\<not> (5::int) dvd 2 ^ k"
proof
  assume "(5::int) dvd 2 ^ k"
  moreover have "coprime (5::int) (2 ^ k)" by simp
  ultimately have "is_unit (5::int)"
    by (meson coprime_absorb_left coprime_common_divisor dvd_refl)
  then show False by simp
qed

lemma tenth_not_dyadic: "\<not> dyadic (1 / 10)"
proof
  assume "dyadic (1 / 10)"
  then obtain m :: int and k :: nat where "(1 / 10 :: rat) = of_int m / 2 ^ k"
    unfolding dyadic_def by blast
  then have "(of_int m :: rat) * 10 = 2 ^ k"
    by (simp add: field_simps)
  then have "(of_int (m * 10) :: rat) = of_int (2 ^ k)" by simp
  then have "m * 10 = 2 ^ k" by (simp only: of_int_eq_iff)
  then have "(2 :: int) ^ k = 5 * (2 * m)" by simp
  then have "(5 :: int) dvd 2 ^ k" by (simp only: dvd_triv_left)
  with five_not_dvd_pow2 show False by blast
qed








section \<open>The claims\<close>

text \<open>
  Claim C1. Let a payload for \<^verbatim>\<open>Transfer\<close> have no key \<^verbatim>\<open>platform_fee_amount\<close>.
  If its other fields are accepted, the construction succeeds and the field
  \<open>fee_amount\<close> of the entity is the absent marker \<open>VNone\<close>. Whatever the other fields
  are, an entity that is constructed has \<open>fee_amount = VNone\<close>, and a validation failure
  never contains an error located at \<^verbatim>\<open>platform_fee_amount\<close>: the absence of the key is
  not a missing-mandatory-field error.
\<close>

theorem transfer_without_platform_fee_amount:
  assumes "map_of kvs ''platform_fee_amount'' = None"
  shows "((\<forall>f\<in>set (mfields (Transfer E)). fname f \<noteq> ''fee_amount''
              \<longrightarrow> is_ok (validate_field sv kvs f)) \<longrightarrow>
            (\<exists>vs. validate sv (Transfer E) (JObj kvs) = Inr (VModel ''Transfer'' vs)
               \<and> map_of vs ''fee_amount'' = Some VNone))
         \<and> (\<forall>vs. validate sv (Transfer E) (JObj kvs) = Inr (VModel ''Transfer'' vs)
               \<longrightarrow> map_of vs ''fee_amount'' = Some VNone)
         \<and> (\<forall>es. validate sv (Transfer E) (JObj kvs) = Inl es
               \<longrightarrow> (\<forall>p k. Err (Key ''platform_fee_amount'' # p) k \<notin> set es))"
proof -
  let ?f = "Field ''fee_amount'' ''platform_fee_amount'' PaymentAmount (Some VNone)"
  let ?fs = "mfields (Transfer E)"
  have T: "Transfer E = TModel ''Transfer'' ?fs" by (simp add: Transfer_def)
  have f: "?f \<in> set ?fs" by (simp add: Transfer_def)
  have dn: "distinct (map fname ?fs)" and da: "distinct (map falias ?fs)"
    by (simp_all add: Transfer_def)
  have d: "fdefault ?f = Some VNone" by simp
  have a: "map_of kvs (falias ?f) = None" using assms by simp
  note facts = model_defaulted_absent [OF f dn d a, of sv "''Transfer''", folded T]
  show ?thesis using facts da by simp
qed

theorem transfer_without_platform_fee_amount_witness:
  "map_of sample_transfer ''platform_fee_amount'' = None
   \<and> list_all (\<lambda>f. is_ok (validate_field exact_scalars sample_transfer f))
         (filter (\<lambda>f. fname f \<noteq> ''fee_amount'') (mfields (Transfer sample_enums)))
   \<and> (\<exists>vs. validate exact_scalars (Transfer sample_enums) (JObj sample_transfer)
              = Inr (VModel ''Transfer'' vs)
         \<and> map_of vs ''fee_amount'' = Some VNone)"
proof -
  have h1: "map_of sample_transfer ''platform_fee_amount'' = None"
    by (simp add: sample_transfer_def)
  have h2: "list_all (\<lambda>f. is_ok (validate_field exact_scalars sample_transfer f))
              (filter (\<lambda>f. fname f \<noteq> ''fee_amount'') (mfields (Transfer sample_enums)))"
    by (simp add: Transfer_def sample_transfer_def sample_enums_def PaymentAmount_def at_loc_def)
  note c = transfer_without_platform_fee_amount [OF h1, of sample_enums exact_scalars,
      THEN conjunct1, rule_format, OF h2 [unfolded list_all_filter_iff, rule_format]]
  show ?thesis by (intro conjI h1 h2 c)
qed

text \<open>
  Claim C2. For every class of the module and every field it declares without a default,
  a payload that lacks the field's wire name is rejected: the construction returns a
  validation failure, never an entity, and the failure contains the error
  \<open>Missing\<close> at the path of that field. This holds whatever the other keys of the payload
  are and whatever the conversion policy for scalars is. The witness is a payment payload
  without \<^verbatim>\<open>created_at\<close> and a recipient payload without \<^verbatim>\<open>account_id\<close>.
\<close>

theorem missing_mandatory_field_fails:
  assumes "m \<in> set (all_models E)"
    and "Field c a t None \<in> set (mfields m)"
    and "map_of kvs a = None"
  shows "\<exists>es. validate sv m (JObj kvs) = Inl es \<and> Err [Key a] Missing \<in> set es"
proof -
  obtain n fs where m: "m = TModel n fs"
    using all_models_shape [OF assms(1)] by blast
  show ?thesis
    using model_missing_mandatory [of "Field c a t None" fs kvs sv n] assms(2,3) m by simp
qed

theorem missing_mandatory_field_fails_witness:
  "Payment sample_enums \<in> set (all_models sample_enums)
   \<and> Field ''created_at'' ''created_at'' datetime None \<in> set (mfields (Payment sample_enums))
   \<and> map_of (filter (\<lambda>kv. fst kv \<noteq> ''created_at'') sample_payment) ''created_at'' = None
   \<and> (\<exists>es. validate exact_scalars (Payment sample_enums)
              (JObj (filter (\<lambda>kv. fst kv \<noteq> ''created_at'') sample_payment)) = Inl es
            \<and> Err [Key ''created_at''] Missing \<in> set es)
   \<and> Recipient \<in> set (all_models sample_enums)
   \<and> Field ''account_id'' ''account_id'' str None \<in> set (mfields Recipient)
   \<and> map_of [(''gateway_id'', JStr ''100700'')] ''account_id'' = None
   \<and> (\<exists>es. validate exact_scalars Recipient (JObj [(''gateway_id'', JStr ''100700'')]) = Inl es
            \<and> Err [Key ''account_id''] Missing \<in> set es)"
proof -
  have h1: "Payment sample_enums \<in> set (all_models sample_enums)"
    by (simp add: all_models_def)
  have h2: "Field ''created_at'' ''created_at'' datetime None \<in> set (mfields (Payment sample_enums))"
    by (simp add: Payment_def)
  have h3: "map_of (filter (\<lambda>kv. fst kv \<noteq> ''created_at'') sample_payment) ''created_at'' = None"
    by (simp add: sample_payment_def)
  have g1: "Recipient \<in> set (all_models sample_enums)"
    by (simp add: all_models_def)
  have g2: "Field ''account_id'' ''account_id'' str None \<in> set (mfields Recipient)"
    by (simp add: Recipient_def)
  have g3: "map_of [(''gateway_id'', JStr ''100700'')] ''account_id'' = None"
    by simp
  note a = missing_mandatory_field_fails [OF h1 h2 h3, where sv = exact_scalars]
  note b = missing_mandatory_field_fails [OF g1 g2 g3, where sv = exact_scalars]
  show ?thesis by (intro conjI h1 h2 h3 a g1 g2 g3 b)
qed

text \<open>
  Claim C3, as amended. A payload for \<^verbatim>\<open>PaymentsList\<close> without the key \<^verbatim>\<open>items\<close>
  never fails at \<^verbatim>\<open>items\<close>, and the entity constructed from it has \<open>list\<close> equal to
  the empty sequence. Its \<open>cursor\<close> is \<open>VNone\<close> when the key \<^verbatim>\<open>cursor\<close> is absent as
  well, and is the validated value of that key when the payload supplies one. A payload for
  \<^verbatim>\<open>Payment\<close> with the status \<^verbatim>\<open>succeeded\<close> (a member of \<^verbatim>\<open>PaymentStatus\<close>), no key
  \<^verbatim>\<open>cancellation_details\<close>, and its other fields accepted, constructs a payment whose
  \<open>cancellation_details\<close> is \<open>VNone\<close>. The theorem after the witness shows that the claim
  as stated fails: without \<^verbatim>\<open>items\<close> but with the cursor \<^verbatim>\<open>abc\<close>, the cursor of the
  entity is \<^verbatim>\<open>abc\<close>, not null.
\<close>

theorem defaulted_fields_resolve:
  "(map_of kvs ''items'' = None \<longrightarrow>
      (map_of kvs ''cursor'' = None \<longrightarrow>
         validate sv (PaymentsList E) (JObj kvs)
           = Inr (VModel ''PaymentsList'' [(''list'', VList []), (''cursor'', VNone)]))
      \<and> (\<forall>j c. map_of kvs ''cursor'' = Some j \<longrightarrow> validate sv (TOptional str) j = Inr c \<longrightarrow>
            validate sv (PaymentsList E) (JObj kvs)
              = Inr (VModel ''PaymentsList'' [(''list'', VList []), (''cursor'', c)]))
      \<and> (\<forall>vs. validate sv (PaymentsList E) (JObj kvs) = Inr (VModel ''PaymentsList'' vs)
            \<longrightarrow> map_of vs ''list'' = Some (VList []))
      \<and> (\<forall>es. validate sv (PaymentsList E) (JObj kvs) = Inl es
            \<longrightarrow> (\<forall>p k. Err (Key ''items'' # p) k \<notin> set es)))
   \<and> (map_of kvs ''cancellation_details'' = None \<longrightarrow>
      map_of kvs ''status'' = Some (JStr ''succeeded'') \<longrightarrow>
      ''succeeded'' \<in> set (PaymentStatus E) \<longrightarrow>
      (\<forall>f\<in>set (mfields (Payment E)). fname f \<notin> {''status'', ''cancellation_details''}
          \<longrightarrow> is_ok (validate_field sv kvs f)) \<longrightarrow>
      (\<exists>vs. validate sv (Payment E) (JObj kvs) = Inr (VModel ''Payment'' vs)
         \<and> map_of vs ''status'' = Some (VEnum ''succeeded'')
         \<and> map_of vs ''cancellation_details'' = Some VNone))"
proof (intro conjI impI)
  assume "map_of kvs ''items'' = None" and "map_of kvs ''cursor'' = None"
  then show "validate sv (PaymentsList E) (JObj kvs)
           = Inr (VModel ''PaymentsList'' [(''list'', VList []), (''cursor'', VNone)])"
    by (simp add: PaymentsList_def)
next
  let ?f = "Field ''list'' ''items'' (TList (Payment E)) (Some (VList []))"
  let ?fs = "mfields (PaymentsList E)"
  assume items: "map_of kvs ''items'' = None"
  show "\<forall>j c. map_of kvs ''cursor'' = Some j \<longrightarrow> validate sv (TOptional str) j = Inr c \<longrightarrow>
            validate sv (PaymentsList E) (JObj kvs)
              = Inr (VModel ''PaymentsList'' [(''list'', VList []), (''cursor'', c)])"
  proof (intro allI impI)
    fix j c
    assume "map_of kvs ''cursor'' = Some j" and "validate sv (TOptional str) j = Inr c"
    with items show "validate sv (PaymentsList E) (JObj kvs)
              = Inr (VModel ''PaymentsList'' [(''list'', VList []), (''cursor'', c)])"
      by (simp add: PaymentsList_def at_loc_def del: validate.simps(3))
  qed
  have T: "PaymentsList E = TModel ''PaymentsList'' ?fs" by (simp add: PaymentsList_def)
  have f: "?f \<in> set ?fs" by (simp add: PaymentsList_def)
  have dn: "distinct (map fname ?fs)" and da: "distinct (map falias ?fs)"
    by (simp_all add: PaymentsList_def)
  have d: "fdefault ?f = Some (VList [])" by simp
  have a: "map_of kvs (falias ?f) = None" using items by simp
  note facts = model_defaulted_absent [OF f dn d a, of sv "''PaymentsList''", folded T]
  show "\<forall>vs. validate sv (PaymentsList E) (JObj kvs) = Inr (VModel ''PaymentsList'' vs)
            \<longrightarrow> map_of vs ''list'' = Some (VList [])"
    using facts(2) by simp
  show "\<forall>es. validate sv (PaymentsList E) (JObj kvs) = Inl es
            \<longrightarrow> (\<forall>p k. Err (Key ''items'' # p) k \<notin> set es)"
    using facts(3) da by simp
next
  let ?fs = "mfields (Payment E)"
  let ?st = "Field ''status'' ''status'' (TEnum (PaymentStatus E)) None"
  let ?cd = "Field ''cancellation_details'' ''cancellation_details''
               (TOptional (CancellationDetails E)) (Some VNone)"
  assume cd: "map_of kvs ''cancellation_details'' = None"
    and st: "map_of kvs ''status'' = Some (JStr ''succeeded'')"
    and mem: "''succeeded'' \<in> set (PaymentStatus E)"
    and others: "\<forall>f\<in>set ?fs. fname f \<notin> {''status'', ''cancellation_details''}
                   \<longrightarrow> is_ok (validate_field sv kvs f)"
  have T: "Payment E = TModel ''Payment'' ?fs" by (simp add: Payment_def)
  have dn: "distinct (map fname ?fs)" by (simp add: Payment_def)
  have fst: "?st \<in> set ?fs" and fcd: "?cd \<in> set ?fs" by (simp_all add: Payment_def)
  have vst: "validate_field sv kvs ?st = Inr (''status'', VEnum ''succeeded'')"
    using st mem by (simp add: at_loc_def)
  have vcd: "validate_field sv kvs ?cd = Inr (''cancellation_details'', VNone)"
    using cd by simp
  have "\<forall>g\<in>set ?fs. is_ok (validate_field sv kvs g)"
  proof
    fix g assume g: "g \<in> set ?fs"
    consider "fname g = ''status''" | "fname g = ''cancellation_details''"
      | "fname g \<notin> {''status'', ''cancellation_details''}" by blast
    then show "is_ok (validate_field sv kvs g)"
    proof cases
      case 1
      with dn fst g have "g = ?st" by (metis distinct_map inj_on_def field.sel(1))
      with vst show ?thesis by simp
    next
      case 2
      with dn fcd g have "g = ?cd" by (metis distinct_map inj_on_def field.sel(1))
      with vcd show ?thesis by simp
    next
      case 3
      with others g show ?thesis by blast
    qed
  qed
  from model_success_lookup [OF this dn, of "''Payment''", folded T] obtain vs where
    ok: "validate sv (Payment E) (JObj kvs) = Inr (VModel ''Payment'' vs)"
    and lk: "\<forall>f\<in>set ?fs. \<forall>v. validate_field sv kvs f = Inr (fname f, v)
                 \<longrightarrow> map_of vs (fname f) = Some v" by blast
  from lk fst vst have "map_of vs ''status'' = Some (VEnum ''succeeded'')" by fastforce
  moreover from lk fcd vcd have "map_of vs ''cancellation_details'' = Some VNone" by fastforce
  ultimately show "\<exists>vs. validate sv (Payment E) (JObj kvs) = Inr (VModel ''Payment'' vs)
         \<and> map_of vs ''status'' = Some (VEnum ''succeeded'')
         \<and> map_of vs ''cancellation_details'' = Some VNone"
    using ok by blast
qed

theorem defaulted_fields_resolve_witness:
  "validate exact_scalars (PaymentsList sample_enums) (JObj [])
     = Inr (VModel ''PaymentsList'' [(''list'', VList []), (''cursor'', VNone)])
   \<and> map_of sample_payment ''cancellation_details'' = None
   \<and> map_of sample_payment ''status'' = Some (JStr ''succeeded'')
   \<and> ''succeeded'' \<in> set (PaymentStatus sample_enums)
   \<and> list_all (\<lambda>f. is_ok (validate_field exact_scalars sample_payment f))
         (filter (\<lambda>f. fname f \<notin> {''status'', ''cancellation_details''})
            (mfields (Payment sample_enums)))
   \<and> (\<exists>vs. validate exact_scalars (Payment sample_enums) (JObj sample_payment)
              = Inr (VModel ''Payment'' vs)
         \<and> map_of vs ''status'' = Some (VEnum ''succeeded'')
         \<and> map_of vs ''cancellation_details'' = Some VNone)"
proof -
  have h0: "map_of [] ''items'' = (None :: json option)"
    and h0': "map_of [] ''cursor'' = (None :: json option)" by simp_all
  have h1: "map_of sample_payment ''cancellation_details'' = None"
    by (simp add: sample_payment_def)
  have h2: "map_of sample_payment ''status'' = Some (JStr ''succeeded'')"
    by (simp add: sample_payment_def)
  have h3: "''succeeded'' \<in> set (PaymentStatus sample_enums)"
    by (simp add: sample_enums_def)
  have h4: "list_all (\<lambda>f. is_ok (validate_field exact_scalars sample_payment f))
              (filter (\<lambda>f. fname f \<notin> {''status'', ''cancellation_details''})
                 (mfields (Payment sample_enums)))"
    by (simp add: Payment_def sample_payment_def PaymentAmount_def Recipient_def at_loc_def
        sample_created_at)
  note h4' = h4 [unfolded list_all_filter_iff]
  from defaulted_fields_resolve [of "[]" exact_scalars sample_enums] h0 h0'
  have a: "validate exact_scalars (PaymentsList sample_enums) (JObj [])
     = Inr (VModel ''PaymentsList'' [(''list'', VList []), (''cursor'', VNone)])" by blast
  from defaulted_fields_resolve [of sample_payment exact_scalars sample_enums] h1 h2 h3 h4'
  have b: "\<exists>vs. validate exact_scalars (Payment sample_enums) (JObj sample_payment)
              = Inr (VModel ''Payment'' vs)
         \<and> map_of vs ''status'' = Some (VEnum ''succeeded'')
         \<and> map_of vs ''cancellation_details'' = Some VNone" by blast
  show ?thesis by (intro conjI a h1 h2 h3 h4 b)
qed

theorem payments_list_keeps_supplied_cursor:
  "map_of [(''cursor'', JStr ''abc'')] ''items'' = None
   \<and> validate exact_scalars (PaymentsList sample_enums) (JObj [(''cursor'', JStr ''abc'')])
        = Inr (VModel ''PaymentsList'' [(''list'', VList []), (''cursor'', VStr ''abc'')])
   \<and> VStr ''abc'' \<noteq> VNone"
  by (simp add: PaymentsList_def at_loc_def)

text \<open>
  Claim C4. For every class of the module and every field annotated with an enumeration,
  a payload whose value for that field is not a member of the enumeration is rejected with
  the error \<open>EnumMember\<close> at the path of the field: no value outside the member set is
  accepted, under any conversion policy. (For a field annotated \<^verbatim>\<open>Enum | None\<close> the
  value null stands for absence and is not an enumerated value.) The witness is a payment
  payload whose status is \<^verbatim>\<open>teleported\<close>.
\<close>

theorem unknown_enum_value_fails:
  assumes "m \<in> set (all_models E)"
    and "Field c a t d \<in> set (mfields m)"
    and "t = TEnum ms \<or> (t = TOptional (TEnum ms) \<and> j \<noteq> JNull)"
    and "map_of kvs a = Some j"
    and "j \<notin> JStr ` set ms"
  shows "\<exists>es. validate sv m (JObj kvs) = Inl es \<and> Err [Key a] EnumMember \<in> set es"
proof -
  obtain n fs where m: "m = TModel n fs"
    using all_models_shape [OF assms(1)] by blast
  have "validate_field sv kvs (Field c a t d) = Inl [Err [Key a] EnumMember]"
    using enum_field_rejects [of "Field c a t d" ms j kvs sv] assms(3,4,5) by simp
  then show ?thesis
    using model_field_error [of "Field c a t d" fs sv kvs "[Err [Key a] EnumMember]"
        "Err [Key a] EnumMember" n] assms(2) m by simp
qed

theorem unknown_enum_value_fails_witness:
  "Payment sample_enums \<in> set (all_models sample_enums)
   \<and> Field ''status'' ''status'' (TEnum (PaymentStatus sample_enums)) None
        \<in> set (mfields (Payment sample_enums))
   \<and> map_of ((''status'', JStr ''teleported'')
              # filter (\<lambda>kv. fst kv \<noteq> ''status'') sample_payment) ''status''
        = Some (JStr ''teleported'')
   \<and> JStr ''teleported'' \<notin> JStr ` set (PaymentStatus sample_enums)
   \<and> (\<exists>es. validate exact_scalars (Payment sample_enums)
              (JObj ((''status'', JStr ''teleported'')
              # filter (\<lambda>kv. fst kv \<noteq> ''status'') sample_payment)) = Inl es
            \<and> Err [Key ''status''] EnumMember \<in> set es)"
proof -
  have h1: "Payment sample_enums \<in> set (all_models sample_enums)"
    by (simp add: all_models_def)
  have h2: "Field ''status'' ''status'' (TEnum (PaymentStatus sample_enums)) None
              \<in> set (mfields (Payment sample_enums))"
    by (simp add: Payment_def)
  have h3: "TEnum (PaymentStatus sample_enums) = TEnum (PaymentStatus sample_enums)
              \<or> (TEnum (PaymentStatus sample_enums) = TOptional (TEnum (PaymentStatus sample_enums))
                  \<and> JStr ''teleported'' \<noteq> JNull)"
    by simp
  have h4: "map_of ((''status'', JStr ''teleported'')
              # filter (\<lambda>kv. fst kv \<noteq> ''status'') sample_payment) ''status''
              = Some (JStr ''teleported'')"
    by simp
  have h5: "JStr ''teleported'' \<notin> JStr ` set (PaymentStatus sample_enums)"
    by (simp add: sample_enums_def)
  from unknown_enum_value_fails [OF h1 h2 h3 h4 h5, where sv = exact_scalars] h1 h2 h4 h5
  show ?thesis by blast
qed

text \<open>
  Claim C5, as amended. The class \<^verbatim>\<open>PaymentAmount\<close> annotates \<open>value\<close> with
  \<^verbatim>\<open>int | float\<close> and declares no constraint on it: whatever number the payload's value
  converts to is stored as it is, of either sign. The witness stores \<open>- 250\<close>; the theorem
  after it shows that the claim as stated fails, a payload with the value \<open>- 1\<close> being
  constructed.
\<close>

theorem payment_amount_stores_any_number:
  assumes "map_of kvs ''value'' = Some j" and "sv SIntOrFloat j = Some v"
    and "map_of kvs ''currency'' = Some cj" and "sv SStr cj = Some c"
  shows "validate sv PaymentAmount (JObj kvs)
           = Inr (VModel ''PaymentAmount'' [(''value'', v), (''currency'', c)])"
  using assms by (simp add: PaymentAmount_def at_loc_def)

theorem payment_amount_stores_any_number_witness:
  "map_of [(''value'', JInt (- 250)), (''currency'', JStr ''USD'')] ''value'' = Some (JInt (- 250))
   \<and> exact_scalars SIntOrFloat (JInt (- 250)) = Some (VInt (- 250))
   \<and> map_of [(''value'', JInt (- 250)), (''currency'', JStr ''USD'')] ''currency''
        = Some (JStr ''USD'')
   \<and> exact_scalars SStr (JStr ''USD'') = Some (VStr ''USD'')
   \<and> validate exact_scalars PaymentAmount
        (JObj [(''value'', JInt (- 250)), (''currency'', JStr ''USD'')])
        = Inr (VModel ''PaymentAmount'' [(''value'', VInt (- 250)), (''currency'', VStr ''USD'')])"
proof -
  have h1: "map_of [(''value'', JInt (- 250)), (''currency'', JStr ''USD'')] ''value''
              = Some (JInt (- 250))" by simp
  have h2: "exact_scalars SIntOrFloat (JInt (- 250)) = Some (VInt (- 250))" by simp
  have h3: "map_of [(''value'', JInt (- 250)), (''currency'', JStr ''USD'')] ''currency''
              = Some (JStr ''USD'')" by simp
  have h4: "exact_scalars SStr (JStr ''USD'') = Some (VStr ''USD'')" by simp
  from payment_amount_stores_any_number [OF h1 h2 h3 h4] h1 h2 h3 h4
  show ?thesis by blast
qed

theorem negative_payment_amount_constructs:
  "validate exact_scalars PaymentAmount (JObj [(''value'', JInt (- 1)), (''currency'', JStr ''RUB'')])
     = Inr (VModel ''PaymentAmount'' [(''value'', VInt (- 1)), (''currency'', VStr ''RUB'')])
   \<and> (- 1 :: int) < 0"
  by (simp add: PaymentAmount_def at_loc_def)




text \<open>
  Claim C7. A payload for \<^verbatim>\<open>CardInfo\<close> that gives \<^verbatim>\<open>first6\<close> and \<^verbatim>\<open>last4\<close> as
  strings (which the conversion policy keeps as they are) and whose other fields are
  accepted constructs an entity with \<open>first_six\<close> and \<open>last_four\<close> equal to those
  strings; the witness takes \<^verbatim>\<open>411111\<close> and \<^verbatim>\<open>1111\<close>. More generally, for every class
  of the module and every field: a payload that gives, under the field's wire name, a
  value that is valid for the field's type, and whose other fields are accepted, is
  accepted, and the validated value is stored under the field's canonical name.
  Conversely, whenever a payload that has the wire name is accepted, the value under it
  has been validated against the field's type and is the one stored.
\<close>

theorem wire_names_are_accepted:
  "(map_of kvs ''first6'' = Some (JStr s6) \<longrightarrow>
    map_of kvs ''last4'' = Some (JStr s4) \<longrightarrow>
    sv SStr (JStr s6) = Some (VStr s6) \<longrightarrow>
    sv SStr (JStr s4) = Some (VStr s4) \<longrightarrow>
    (\<forall>f\<in>set (mfields CardInfo). fname f \<notin> {''first_six'', ''last_four''}
        \<longrightarrow> is_ok (validate_field sv kvs f)) \<longrightarrow>
    (\<exists>vs. validate sv CardInfo (JObj kvs) = Inr (VModel ''CardInfo'' vs)
       \<and> map_of vs ''first_six'' = Some (VStr s6)
       \<and> map_of vs ''last_four'' = Some (VStr s4)))
   \<and> (m \<in> set (all_models E) \<longrightarrow>
      Field c a t d \<in> set (mfields m) \<longrightarrow>
      map_of kvs a = Some j \<longrightarrow>
      validate sv t j = Inr w \<longrightarrow>
      (\<forall>f\<in>set (mfields m). fname f \<noteq> c \<longrightarrow> is_ok (validate_field sv kvs f)) \<longrightarrow>
      (\<exists>vs. validate sv m (JObj kvs) = Inr (VModel (mname m) vs) \<and> map_of vs c = Some w))
   \<and> (m \<in> set (all_models E) \<longrightarrow>
      Field c a t d \<in> set (mfields m) \<longrightarrow>
      map_of kvs a = Some j \<longrightarrow>
      validate sv m (JObj kvs) = Inr r \<longrightarrow>
      (\<exists>v vs. r = VModel (mname m) vs \<and> validate sv t j = Inr v \<and> map_of vs c = Some v))"
proof (intro conjI impI)
  let ?fs = "mfields CardInfo"
  let ?f6 = "Field ''first_six'' ''first6'' (TOptional str) (Some VNone)"
  let ?f4 = "Field ''last_four'' ''last4'' str None"
  assume k6: "map_of kvs ''first6'' = Some (JStr s6)"
    and k4: "map_of kvs ''last4'' = Some (JStr s4)"
    and sv6: "sv SStr (JStr s6) = Some (VStr s6)"
    and sv4: "sv SStr (JStr s4) = Some (VStr s4)"
    and others: "\<forall>f\<in>set ?fs. fname f \<notin> {''first_six'', ''last_four''}
                   \<longrightarrow> is_ok (validate_field sv kvs f)"
  have T: "CardInfo = TModel ''CardInfo'' ?fs" by (simp add: CardInfo_def)
  have dn: "distinct (map fname ?fs)" by (simp add: CardInfo_def)
  have m6: "?f6 \<in> set ?fs" and m4: "?f4 \<in> set ?fs" by (simp_all add: CardInfo_def)
  have v6: "validate_field sv kvs ?f6 = Inr (''first_six'', VStr s6)"
    using k6 sv6 by (simp add: at_loc_def)
  have v4: "validate_field sv kvs ?f4 = Inr (''last_four'', VStr s4)"
    using k4 sv4 by (simp add: at_loc_def)
  have "\<forall>g\<in>set ?fs. is_ok (validate_field sv kvs g)"
  proof
    fix g assume g: "g \<in> set ?fs"
    consider "fname g = ''first_six''" | "fname g = ''last_four''"
      | "fname g \<notin> {''first_six'', ''last_four''}" by blast
    then show "is_ok (validate_field sv kvs g)"
    proof cases
      case 1
      with dn m6 g have "g = ?f6" by (metis distinct_map inj_on_def field.sel(1))
      with v6 show ?thesis by simp
    next
      case 2
      with dn m4 g have "g = ?f4" by (metis distinct_map inj_on_def field.sel(1))
      with v4 show ?thesis by simp
    next
      case 3
      with others g show ?thesis by blast
    qed
  qed
  from model_success_lookup [OF this dn, of "''CardInfo''", folded T] obtain vs where
    ok: "validate sv CardInfo (JObj kvs) = Inr (VModel ''CardInfo'' vs)"
    and lk: "\<forall>f\<in>set ?fs. \<forall>v. validate_field sv kvs f = Inr (fname f, v)
                 \<longrightarrow> map_of vs (fname f) = Some v" by blast
  from lk m6 v6 have "map_of vs ''first_six'' = Some (VStr s6)" by fastforce
  moreover from lk m4 v4 have "map_of vs ''last_four'' = Some (VStr s4)" by fastforce
  ultimately show "\<exists>vs. validate sv CardInfo (JObj kvs) = Inr (VModel ''CardInfo'' vs)
       \<and> map_of vs ''first_six'' = Some (VStr s6)
       \<and> map_of vs ''last_four'' = Some (VStr s4)"
    using ok by blast
next
  assume m: "m \<in> set (all_models E)"
    and f: "Field c a t d \<in> set (mfields m)"
    and k: "map_of kvs a = Some j"
    and w: "validate sv t j = Inr w"
    and others: "\<forall>f\<in>set (mfields m). fname f \<noteq> c \<longrightarrow> is_ok (validate_field sv kvs f)"
  have shape: "m = TModel (mname m) (mfields m)" using all_models_shape [OF m] .
  have k': "map_of kvs (falias (Field c a t d)) = Some j" using k by simp
  have w': "validate sv (ftyp (Field c a t d)) j = Inr w" using w by simp
  have o': "\<forall>g\<in>set (mfields m). fname g \<noteq> fname (Field c a t d)
              \<longrightarrow> is_ok (validate_field sv kvs g)" using others by simp
  from model_present_accepted [OF f all_models_distinct [OF m] k' w' o', of "mname m"]
  obtain vs where "validate sv (TModel (mname m) (mfields m)) (JObj kvs)
                     = Inr (VModel (mname m) vs)"
    and "map_of vs c = Some w" by auto
  then show "\<exists>vs. validate sv m (JObj kvs) = Inr (VModel (mname m) vs) \<and> map_of vs c = Some w"
    by (subst shape) blast
next
  assume m: "m \<in> set (all_models E)"
    and f: "Field c a t d \<in> set (mfields m)"
    and k: "map_of kvs a = Some j"
    and r: "validate sv m (JObj kvs) = Inr r"
  have shape: "m = TModel (mname m) (mfields m)" using all_models_shape [OF m] .
  have r': "validate sv (TModel (mname m) (mfields m)) (JObj kvs) = Inr r"
    using r shape by simp
  have k': "map_of kvs (falias (Field c a t d)) = Some j" using k by simp
  from model_present_value [OF r' f all_models_distinct [OF m] k']
  show "\<exists>v vs. r = VModel (mname m) vs \<and> validate sv t j = Inr v \<and> map_of vs c = Some v"
    by simp
qed

theorem wire_names_are_accepted_witness:
  "map_of sample_card ''first6'' = Some (JStr ''411111'')
   \<and> map_of sample_card ''last4'' = Some (JStr ''1111'')
   \<and> exact_scalars SStr (JStr ''411111'') = Some (VStr ''411111'')
   \<and> exact_scalars SStr (JStr ''1111'') = Some (VStr ''1111'')
   \<and> list_all (\<lambda>f. is_ok (validate_field exact_scalars sample_card f))
         (filter (\<lambda>f. fname f \<notin> {''first_six'', ''last_four''}) (mfields CardInfo))
   \<and> (\<exists>vs. validate exact_scalars CardInfo (JObj sample_card) = Inr (VModel ''CardInfo'' vs)
         \<and> map_of vs ''first_six'' = Some (VStr ''411111'')
         \<and> map_of vs ''last_four'' = Some (VStr ''1111''))
   \<and> Confirmation sample_enums \<in> set (all_models sample_enums)
   \<and> Field ''url'' ''confirmation_url'' (TOptional str) (Some VNone)
        \<in> set (mfields (Confirmation sample_enums))
   \<and> map_of sample_confirmation ''confirmation_url''
        = Some (JStr ''https://yoomoney.ru/checkout/payments/v2/contract'')
   \<and> validate exact_scalars (TOptional str)
        (JStr ''https://yoomoney.ru/checkout/payments/v2/contract'')
        = Inr (VStr ''https://yoomoney.ru/checkout/payments/v2/contract'')
   \<and> list_all (\<lambda>f. is_ok (validate_field exact_scalars sample_confirmation f))
         (filter (\<lambda>f. fname f \<noteq> ''url'') (mfields (Confirmation sample_enums)))
   \<and> (\<exists>vs. validate exact_scalars (Confirmation sample_enums) (JObj sample_confirmation)
              = Inr (VModel ''Confirmation'' vs)
         \<and> map_of vs ''url'' = Some (VStr ''https://yoomoney.ru/checkout/payments/v2/contract''))"
proof -
  have h1: "map_of sample_card ''first6'' = Some (JStr ''411111'')"
    and h2: "map_of sample_card ''last4'' = Some (JStr ''1111'')"
    by (simp_all add: sample_card_def)
  have h3: "exact_scalars SStr (JStr ''411111'') = Some (VStr ''411111'')"
    and h4: "exact_scalars SStr (JStr ''1111'') = Some (VStr ''1111'')" by simp_all
  have h5: "list_all (\<lambda>f. is_ok (validate_field exact_scalars sample_card f))
              (filter (\<lambda>f. fname f \<notin> {''first_six'', ''last_four''}) (mfields CardInfo))"
    by (simp add: CardInfo_def sample_card_def at_loc_def)
  note h5' = h5 [unfolded list_all_filter_iff]
  have g1: "Confirmation sample_enums \<in> set (all_models sample_enums)"
    by (simp add: all_models_def)
  have g2: "Field ''url'' ''confirmation_url'' (TOptional str) (Some VNone)
              \<in> set (mfields (Confirmation sample_enums))"
    by (simp add: Confirmation_def)
  have g3: "map_of sample_confirmation ''confirmation_url''
              = Some (JStr ''https://yoomoney.ru/checkout/payments/v2/contract'')"
    by (simp add: sample_confirmation_def)
  have g4: "validate exact_scalars (TOptional str)
              (JStr ''https://yoomoney.ru/checkout/payments/v2/contract'')
              = Inr (VStr ''https://yoomoney.ru/checkout/payments/v2/contract'')"
    by simp
  have g5: "list_all (\<lambda>f. is_ok (validate_field exact_scalars sample_confirmation f))
              (filter (\<lambda>f. fname f \<noteq> ''url'') (mfields (Confirmation sample_enums)))"
    by (simp add: Confirmation_def sample_confirmation_def sample_enums_def at_loc_def)
  note g5' = g5 [unfolded list_all_filter_iff]
  have nm: "mname (Confirmation sample_enums) = ''Confirmation''"
    by (simp add: Confirmation_def)
  from wire_names_are_accepted [of sample_card "''411111''" "''1111''" exact_scalars]
    h1 h2 h3 h4 h5'
  have a: "\<exists>vs. validate exact_scalars CardInfo (JObj sample_card) = Inr (VModel ''CardInfo'' vs)
         \<and> map_of vs ''first_six'' = Some (VStr ''411111'')
         \<and> map_of vs ''last_four'' = Some (VStr ''1111'')" by blast
  note b0 = wire_names_are_accepted [of sample_confirmation _ _ exact_scalars
      "Confirmation sample_enums" sample_enums "''url''" "''confirmation_url''" "TOptional str"
      "Some VNone" "JStr ''https://yoomoney.ru/checkout/payments/v2/contract''"
      "VStr ''https://yoomoney.ru/checkout/payments/v2/contract''",
      THEN conjunct2, THEN conjunct1, rule_format, OF g1 g2 g3 g4 g5' [rule_format]]
  have b: "\<exists>vs. validate exact_scalars (Confirmation sample_enums) (JObj sample_confirmation)
              = Inr (VModel ''Confirmation'' vs)
         \<and> map_of vs ''url'' = Some (VStr ''https://yoomoney.ru/checkout/payments/v2/contract'')"
    using b0 unfolding nm .
  show ?thesis by (intro conjI h1 h2 h3 h4 h5 a g1 g2 g3 g4 g5 b)
qed

text \<open>
  Claim C8. The class \<^verbatim>\<open>Deal\<close> annotates \<open>settlements\<close> with \<^verbatim>\<open>List[PaymentAmount]\<close>,
  not with \<^verbatim>\<open>List[Settlement]\<close>: a deal whose settlement entries have the shape of
  \<^verbatim>\<open>Settlement\<close> (a type and an amount) is rejected, each entry lacking \<^verbatim>\<open>value\<close> and
  \<^verbatim>\<open>currency\<close>, although the same entry is a valid \<^verbatim>\<open>Settlement\<close>.
\<close>

theorem deal_rejects_settlement_entries:
  "validate exact_scalars Deal (JObj settlement_shaped_deal)
     = Inl [ Err [Key ''settlements'', Idx 0, Key ''value''] Missing,
             Err [Key ''settlements'', Idx 0, Key ''currency''] Missing ]
   \<and> validate exact_scalars Settlement
        (JObj [ (''type'', JStr ''payout''),
                (''amount'', JObj [(''value'', JInt 80), (''currency'', JStr ''RUB'')]) ])
     = Inr (VModel ''Settlement''
             [ (''type'', VStr ''payout''),
               (''amount'', VModel ''PaymentAmount''
                  [(''value'', VInt 80), (''currency'', VStr ''RUB'')]) ])"
  by (simp add: Deal_def Settlement_def PaymentAmount_def settlement_shaped_deal_def at_loc_def)





text \<open>
  Claim C10. A payload for \<^verbatim>\<open>AuthorizationDetails\<close> without the key
  \<^verbatim>\<open>three_d_secure\<close> is rejected with the error \<open>Missing\<close> at that key, while neither
  \<^verbatim>\<open>rrn\<close> nor \<^verbatim>\<open>auth_code\<close> is ever reported missing; and a payload that has a valid
  \<^verbatim>\<open>three_d_secure\<close> object and neither identifier constructs, with both identifiers
  absent (\<open>VNone\<close>).
\<close>

theorem authorization_details_requires_three_d_secure:
  "(map_of kvs ''three_d_secure'' = None \<longrightarrow>
      (\<exists>es. validate sv AuthorizationDetails (JObj kvs) = Inl es
         \<and> Err [Key ''three_d_secure''] Missing \<in> set es
         \<and> Err [Key ''rrn''] Missing \<notin> set es
         \<and> Err [Key ''auth_code''] Missing \<notin> set es))
   \<and> (map_of kvs ''rrn'' = None \<longrightarrow> map_of kvs ''auth_code'' = None \<longrightarrow>
        map_of kvs ''three_d_secure'' = Some j \<longrightarrow> validate sv ThreeDSInfo j = Inr v \<longrightarrow>
        validate sv AuthorizationDetails (JObj kvs) =
          Inr (VModel ''AuthorizationDetails''
                [(''transaction_identifier'', VNone), (''authorization_code'', VNone),
                 (''three_d_secure'', v)]))"
proof (intro conjI impI)
  let ?fs = "mfields AuthorizationDetails"
  let ?tds = "Field ''three_d_secure'' ''three_d_secure'' ThreeDSInfo None"
  assume absent: "map_of kvs ''three_d_secure'' = None"
  have T: "AuthorizationDetails = TModel ''AuthorizationDetails'' ?fs"
    by (simp add: AuthorizationDetails_def)
  have "?tds \<in> set ?fs" by (simp add: AuthorizationDetails_def)
  from model_missing_mandatory [OF this, of kvs sv "''AuthorizationDetails''", folded T] absent
  obtain es where es: "validate sv AuthorizationDetails (JObj kvs) = Inl es"
    and tds: "Err [Key ''three_d_secure''] Missing \<in> set es" by auto
  have no: "Err [Key a] Missing \<notin> set es" if a: "a = ''rrn'' \<or> a = ''auth_code''" for a
  proof
    assume "Err [Key a] Missing \<in> set es"
    have es': "validate sv (TModel ''AuthorizationDetails'' ?fs) (JObj kvs) = Inl es"
      by (subst T [symmetric]) (rule es)
    from model_error_origin [OF es' \<open>Err [Key a] Missing \<in> set es\<close>] obtain g where
      g: "g \<in> set ?fs" and ge: "Err [Key a] Missing \<in> set (errors_of (validate_field sv kvs g))"
      by blast
    from validate_field_error_loc [OF ge] have al: "falias g = a" by simp
    with g a have ty: "ftyp g = TOptional str" and df: "fdefault g \<noteq> None"
      by (auto simp: AuthorizationDetails_def)
    show False
    proof (cases "map_of kvs (falias g)")
      case None
      with ge df show False by (auto simp: validate_field_absent)
    next
      case (Some j)
      show False
      proof (cases "validate sv (ftyp g) j")
        case (Inl x1)
        then have "x1 = [Err [] (Invalid SStr)]"
          using optional_str_errors [of sv j x1] ty by simp
        with Inl Some ge show False by (simp add: validate_field_present)
      next
        case (Inr w)
        with Some ge show False by (simp add: validate_field_present)
      qed
    qed
  qed
  from es tds no show "\<exists>es. validate sv AuthorizationDetails (JObj kvs) = Inl es
         \<and> Err [Key ''three_d_secure''] Missing \<in> set es
         \<and> Err [Key ''rrn''] Missing \<notin> set es
         \<and> Err [Key ''auth_code''] Missing \<notin> set es" by blast
next
  assume "map_of kvs ''rrn'' = None" and "map_of kvs ''auth_code'' = None"
    and "map_of kvs ''three_d_secure'' = Some j" and "validate sv ThreeDSInfo j = Inr v"
  then show "validate sv AuthorizationDetails (JObj kvs) =
          Inr (VModel ''AuthorizationDetails''
                [(''transaction_identifier'', VNone), (''authorization_code'', VNone),
                 (''three_d_secure'', v)])"
    by (simp add: AuthorizationDetails_def at_loc_def)
qed

theorem authorization_details_requires_three_d_secure_witness:
  "map_of [(''rrn'', JStr ''603668680243'')] ''three_d_secure'' = None
   \<and> (\<exists>es. validate exact_scalars AuthorizationDetails (JObj [(''rrn'', JStr ''603668680243'')])
              = Inl es
         \<and> Err [Key ''three_d_secure''] Missing \<in> set es
         \<and> Err [Key ''rrn''] Missing \<notin> set es
         \<and> Err [Key ''auth_code''] Missing \<notin> set es)
   \<and> map_of [(''three_d_secure'', JObj [(''applied'', JBool True)])] ''rrn'' = None
   \<and> map_of [(''three_d_secure'', JObj [(''applied'', JBool True)])] ''auth_code'' = None
   \<and> map_of [(''three_d_secure'', JObj [(''applied'', JBool True)])] ''three_d_secure''
        = Some (JObj [(''applied'', JBool True)])
   \<and> validate exact_scalars ThreeDSInfo (JObj [(''applied'', JBool True)])
        = Inr (VModel ''ThreeDSInfo'' [(''applied'', VBool True)])
   \<and> validate exact_scalars AuthorizationDetails
        (JObj [(''three_d_secure'', JObj [(''applied'', JBool True)])])
        = Inr (VModel ''AuthorizationDetails''
                [(''transaction_identifier'', VNone), (''authorization_code'', VNone),
                 (''three_d_secure'', VModel ''ThreeDSInfo'' [(''applied'', VBool True)])])"
proof -
  have h1: "map_of [(''rrn'', JStr ''603668680243'')] ''three_d_secure'' = None" by simp
  have h2: "map_of [(''three_d_secure'', JObj [(''applied'', JBool True)])] ''rrn'' = None"
    and h3: "map_of [(''three_d_secure'', JObj [(''applied'', JBool True)])] ''auth_code'' = None"
    and h4: "map_of [(''three_d_secure'', JObj [(''applied'', JBool True)])] ''three_d_secure''
        = Some (JObj [(''applied'', JBool True)])" by simp_all
  have h5: "validate exact_scalars ThreeDSInfo (JObj [(''applied'', JBool True)])
        = Inr (VModel ''ThreeDSInfo'' [(''applied'', VBool True)])"
    by (simp add: ThreeDSInfo_def at_loc_def)
  note a = authorization_details_requires_three_d_secure
      [of "[(''rrn'', JStr ''603668680243'')]" exact_scalars, THEN conjunct1, rule_format, OF h1]
  note b = authorization_details_requires_three_d_secure
      [of "[(''three_d_secure'', JObj [(''applied'', JBool True)])]" exact_scalars,
       THEN conjunct2, rule_format, OF h2 h3 h4 h5]
  show ?thesis by (intro conjI h1 a h2 h3 h4 h5 b)
qed

end
